theory Spec2Isabelle
  imports Main "HOL-Library.AList" "HOL-Library.Sublist"
begin

section \<open>Python strings\<close>

text \<open>
  The program is Python 2: a \<open>str\<close> is a byte string, here a \<open>string\<close>.
  \<open>str.lower\<close> maps the letters A to Z to a to z and leaves every other byte alone.
\<close>

definition lower_char :: "char \<Rightarrow> char" where
  "lower_char c =
     (case map_of (zip ''ABCDEFGHIJKLMNOPQRSTUVWXYZ'' ''abcdefghijklmnopqrstuvwxyz'') c of
        Some l \<Rightarrow> l
      | None \<Rightarrow> c)"

definition lower :: "string \<Rightarrow> string" where
  "lower s = map lower_char s"

text \<open>\<open>s.startswith(p)\<close>.\<close>

definition startswith :: "string \<Rightarrow> string \<Rightarrow> bool" where
  "startswith s p = (take (length p) s = p)"

text \<open>
  \<open>s.split(sep)\<close> for a separator that is a non-empty string: the pieces between the
  occurrences of \<open>sep\<close>, found from the left; there is always at least one piece.
  (With the empty separator Python raises ValueError; the callers below check that
  before they call.)
\<close>

function py_split :: "string \<Rightarrow> string \<Rightarrow> string list" where
  "py_split sep [] = [[]]"
| "py_split sep (c # cs) =
     (if sep \<noteq> [] \<and> startswith (c # cs) sep
      then [] # py_split sep (drop (length sep) (c # cs))
      else (case py_split sep cs of
              [] \<Rightarrow> [[c]]
            | w # ws \<Rightarrow> (c # w) # ws))"
  by pat_completeness auto
termination
  by (relation "measure (\<lambda>(sep, s). length s)") auto

text \<open>
  \<open>s.split(None)\<close>: the maximal runs of bytes that are not white space; possibly no
  piece at all.
\<close>

definition is_space :: "char \<Rightarrow> bool" where
  "is_space c = ((of_char c :: nat) \<in> {9, 10, 11, 12, 13, 32})"

fun split_ws :: "string \<Rightarrow> string list" where
  "split_ws [] = []"
| "split_ws (c # cs) =
     (if is_space c then split_ws cs
      else (case cs of
              [] \<Rightarrow> [[c]]
            | c' # _ \<Rightarrow>
                if is_space c' then [c] # split_ws cs
                else (case split_ws cs of [] \<Rightarrow> [[c]] | w # ws \<Rightarrow> (c # w) # ws)))"

text \<open>\<open>sep.join(xs)\<close>.\<close>

fun py_join :: "string \<Rightarrow> string list \<Rightarrow> string" where
  "py_join sep [] = []"
| "py_join sep [x] = x"
| "py_join sep (x # y # ys) = x @ sep @ py_join sep (y # ys)"

section \<open>Values: the tree of options\<close>

text \<open>
  \<open>cli.Values\<close> extends \<open>optparse.Values\<close>, an old-style class that keeps its options as
  the attributes of the instance, that is in the instance's \<open>__dict__\<close>. A Values instance
  is therefore represented by its \<open>__dict__\<close>, an association list from attribute names to
  the values stored; a value is None, a string, a number, or a Values instance again.
  \<open>PInt\<close> stands for every scalar that is neither None nor a string: the program never
  looks into it.

  Instances are trees here (a node is a value, not a reference): the program only ever
  hangs a fresh \<open>Values()\<close> under a node, so no node has two parents.
\<close>

datatype pyval =
    PNone
  | PStr string
  | PInt int
  | PVals "(string \<times> pyval) list"

type_synonym pydict = "(string \<times> pyval) list"

datatype error =
    AttributeError
  | TypeError
  | ValueError
  | IndexError
  | MainError
  | ParserError
  | OffTree

text \<open>
  The first five are the Python exceptions of those names and \<open>ParserError\<close> is whatever
  the option parser raises. \<open>OffTree\<close> is neither an exception nor a result: it marks a
  walk that has stepped from a Values instance onto another object (a string, a bound
  method, the class) with segments still to go. What Python does from there depends on
  the attributes of that object (the walk may raise, and through \<open>im_self\<close> of a bound
  method it may even come back and return); the model follows the program inside the
  tree of Values instances only, and gives no answer beyond it. Every property below
  that speaks of a write or a read that returns says, in its hypotheses, that the walk
  stays inside the tree (\<open>settable\<close>, \<open>compatible\<close>, \<open>absent\<close>).
\<close>

text \<open>
  What an attribute of a Values instance evaluates to: a stored value, a bound method of
  the class, the instance's \<open>__dict__\<close> (the dictionary with what it holds), or its class.
\<close>

datatype attr =
    Val pyval
  | Method string
  | InstDict "(string \<times> pyval) list"
  | TheClass

text \<open>
  The attributes every instance has from its class: \<open>delim\<close> and the four methods of
  \<open>cli.Values\<close> (cli.py, lines 15 to 82), the methods of \<open>optparse.Values\<close>, and the
  \<open>__doc__\<close> (there is no docstring) and \<open>__module__\<close> of the class.
\<close>

definition class_methods :: "string list" where
  "class_methods =
     [''set'', ''update_from_config'', ''update_from_env'', ''update_from_cli'',
      ''__init__'', ''__str__'', ''__repr__'', ''__cmp__'',
      ''_update_careful'', ''_update_loose'', ''_update'',
      ''read_module'', ''read_file'', ''ensure_value'']"

definition class_attr :: "string \<Rightarrow> attr option" where
  "class_attr n =
     (if n = ''delim'' then Some (Val (PStr ''.''))
      else if n \<in> set class_methods then Some (Method n)
      else if n = ''__doc__'' then Some (Val PNone)
      else if n = ''__module__'' then Some (Val (PStr ''cli''))
      else None)"

text \<open>
  \<open>getattr(inst, n)\<close> on an old-style instance: \<open>__dict__\<close> and \<open>__class__\<close> are answered
  by the interpreter, then the instance's \<open>__dict__\<close> is searched, then the class.
  \<open>None\<close> is AttributeError, so \<open>hasattr(inst, n)\<close> is \<open>getattr d n \<noteq> None\<close>.
\<close>

definition getattr :: "pydict \<Rightarrow> string \<Rightarrow> attr option" where
  "getattr d n =
     (if n = ''__dict__'' then Some (InstDict d)
      else if n = ''__class__'' then Some TheClass
      else (case map_of d n of
              Some v \<Rightarrow> Some (Val v)
            | None \<Rightarrow> class_attr n))"

definition hasattr :: "pydict \<Rightarrow> string \<Rightarrow> bool" where
  "hasattr d n = (getattr d n \<noteq> None)"

text \<open>
  \<open>inst.m(...)\<close> first evaluates \<open>inst.m\<close>, and an option stored under the name of a
  method hides the method: calling a string or a number is a TypeError, calling a Values
  instance (which has no \<open>__call__\<close>) or a missing attribute an AttributeError.
  \<open>method_of\<close> returns the name of the method that the call reaches.
\<close>

definition method_of :: "pydict \<Rightarrow> string \<Rightarrow> error + string" where
  "method_of d m =
     (case getattr d m of
        None \<Rightarrow> Inl AttributeError
      | Some (Method f) \<Rightarrow> Inr f
      | Some (Val (PVals _)) \<Rightarrow> Inl AttributeError
      | Some (Val _) \<Rightarrow> Inl TypeError
      | Some (InstDict _) \<Rightarrow> Inl TypeError
      | Some TheClass \<Rightarrow> Inl OffTree)"

text \<open>
  \<open>parent._update_loose({name: value})\<close>; the method of \<open>optparse.Values\<close> is
  \<open>self.__dict__.update(dict)\<close>, which replaces the value of a key that is there and adds
  the key otherwise.
\<close>

definition update_loose :: "pydict \<Rightarrow> string \<Rightarrow> pyval \<Rightarrow> error + pydict" where
  "update_loose parent name value =
     (case method_of parent ''_update_loose'' of
        Inl e \<Rightarrow> Inl e
      | Inr _ \<Rightarrow> Inr (AList.update name value parent))"

text \<open>
  The walk has reached, under the name \<open>n\<close>, an object \<open>a\<close> that is not a Values instance.
  When it is the last of the intermediate names, \<open>parent._update_loose\<close> comes next and
  fails: a string, a number, None, a bound method and a dict have no such attribute,
  and the class has it as an unbound method, which refuses a dict as \<open>self\<close>.
  Otherwise the loop goes on with \<open>hasattr\<close>, \<open>setattr\<close> and \<open>getattr\<close> on that object.
\<close>

definition leave :: "attr \<Rightarrow> string list \<Rightarrow> error" where
  "leave a ns = (if ns = [] then (if a = TheClass then TypeError else AttributeError) else OffTree)"

text \<open>
  The loop of \<open>Values.set\<close> that builds the tree, with the \<open>_update_loose\<close> that follows it
  (cli.py, lines 27 to 35). \<open>parent\<close> is the node the loop stands on, \<open>n # ns\<close> are the
  names still to walk. A child that is created or changed lives in its parent, so the
  parent is returned with the new child in place. When the walk raises, Python keeps
  the nodes created so far; the model returns the error only.
\<close>

fun build :: "pydict \<Rightarrow> string list \<Rightarrow> string \<Rightarrow> pyval \<Rightarrow> error + pydict" where
  "build parent [] name value = update_loose parent name value"
| "build parent (n # ns) name value =
     (let parent' = (if \<not> hasattr parent n then AList.update n (PVals []) parent else parent)
      in case getattr parent' n of
           None \<Rightarrow> Inl AttributeError
         | Some (Val (PVals c)) \<Rightarrow>
             (case build c ns name value of
                Inl e \<Rightarrow> Inl e
              | Inr c' \<Rightarrow> Inr (AList.update n (PVals c') parent'))
         | Some a \<Rightarrow> Inl (leave a ns))"

text \<open>
  \<open>name.split(self.delim)\<close>: \<open>self.delim\<close> is looked up like any attribute, so an option
  stored under the name \<open>delim\<close> at the root replaces the class's \<open>'.'\<close>. An empty
  separator is a ValueError, None splits at white space, anything else that is not a
  string is a TypeError.
\<close>

definition split_name :: "pydict \<Rightarrow> string \<Rightarrow> error + string list" where
  "split_name self name =
     (case getattr self ''delim'' of
        Some (Val (PStr sep)) \<Rightarrow> if sep = [] then Inl ValueError else Inr (py_split sep name)
      | Some (Val PNone) \<Rightarrow> Inr (split_ws name)
      | _ \<Rightarrow> Inl TypeError)"

text \<open>
  \<open>Values.set\<close> (cli.py, lines 17 to 35). \<open>subnames.pop()\<close> takes the last piece and
  raises IndexError when there is none.
\<close>

definition set_py :: "pydict \<Rightarrow> string \<Rightarrow> pyval \<Rightarrow> error + pydict" where
  "set_py self name value =
     (case split_name self name of
        Inl e \<Rightarrow> Inl e
      | Inr subnames \<Rightarrow>
          if subnames = [] then Inl IndexError
          else build self (butlast subnames) (last subnames) value)"

text \<open>
  Modelled from the spec: \<open>Values\<close> has no method \<open>get\<close>. The program reads an option by
  attribute access, \<open>app.opts.default.foo\<close> (cli.py, lines 214 to 216); the spec calls
  that \<open>get(path)\<close>, "analogous walk with read failures (missing segment -> lookup error)
  instead of creation", over the path split at the fixed delimiter \<open>'.'\<close>. A read
  changes nothing, so \<open>get\<close> returns what was read and no tree.
\<close>

fun getpath :: "pydict \<Rightarrow> string list \<Rightarrow> error + attr" where
  "getpath parent [] = Inr (Val (PVals parent))"
| "getpath parent (n # ns) =
     (case getattr parent n of
        None \<Rightarrow> Inl AttributeError
      | Some a \<Rightarrow>
          if ns = [] then Inr a
          else (case a of
                  Val (PVals c) \<Rightarrow> getpath c ns
                | _ \<Rightarrow> Inl OffTree))"

definition get :: "pydict \<Rightarrow> string \<Rightarrow> error + attr" where
  "get self path = getpath self (py_split ''.'' path)"

section \<open>The three sources\<close>

text \<open>
  \<open>self.delim.join(xs)\<close>: None and numbers have no \<open>join\<close>; a Values instance stored as
  \<open>delim\<close> has none from its class either, and whatever is stored under that name in it is
  not a method.
\<close>

definition join_delim :: "pydict \<Rightarrow> string list \<Rightarrow> error + string" where
  "join_delim self xs =
     (case getattr self ''delim'' of
        Some (Val (PStr sep)) \<Rightarrow> Inr (py_join sep xs)
      | Some (Val (PVals c)) \<Rightarrow>
          (case method_of c ''join'' of Inl e \<Rightarrow> Inl e | Inr _ \<Rightarrow> Inl OffTree)
      | _ \<Rightarrow> Inl AttributeError)"

text \<open>\<open>self.set(name, value)\<close>, a call through the attribute \<open>set\<close> of the instance.\<close>

definition call_set :: "pydict \<Rightarrow> string \<Rightarrow> pyval \<Rightarrow> error + pydict" where
  "call_set self name value =
     (case method_of self ''set'' of
        Inl e \<Rightarrow> Inl e
      | Inr _ \<Rightarrow> set_py self name value)"

text \<open>
  \<open>ConfigParser\<close> is Python's library. The program asks it for the sections of the file,
  for the options of each section and for the value of each option, in that order
  (cli.py, lines 58 to 61); a configuration file is represented by these answers, the
  sections with their options and values as the parser lists them.
\<close>

type_synonym config = "(string \<times> (string \<times> string) list) list"






text \<open>The inner loop of \<open>update_from_config\<close>, over the options of one section.\<close>

fun update_from_section :: "pydict \<Rightarrow> string \<Rightarrow> (string \<times> string) list \<Rightarrow> error + pydict" where
  "update_from_section self section [] = Inr self"
| "update_from_section self section ((option, value) # rest) =
     (case join_delim self [section, option] of
        Inl e \<Rightarrow> Inl e
      | Inr name \<Rightarrow>
          (case call_set self name (PStr value) of
             Inl e \<Rightarrow> Inl e
           | Inr self' \<Rightarrow> update_from_section self' section rest))"

text \<open>\<open>Values.update_from_config\<close> (cli.py, lines 37 to 63).\<close>

fun update_from_config :: "pydict \<Rightarrow> config \<Rightarrow> error + pydict" where
  "update_from_config self [] = Inr self"
| "update_from_config self ((section, options) # rest) =
     (case update_from_section self section options of
        Inl e \<Rightarrow> Inl e
      | Inr self' \<Rightarrow> update_from_config self' rest)"

text \<open>
  \<open>Values.update_from_env\<close> (cli.py, lines 65 to 74), over \<open>env.items()\<close>: the pairs of the
  dictionary in the order in which Python lists them.
\<close>

fun update_from_env :: "pydict \<Rightarrow> (string \<times> pyval) list \<Rightarrow> error + pydict" where
  "update_from_env self [] = Inr self"
| "update_from_env self ((key, value) # rest) =
     (case join_delim self (py_split ''_'' (lower key)) of
        Inl e \<Rightarrow> Inl e
      | Inr key' \<Rightarrow>
          (case call_set self key' value of
             Inl e \<Rightarrow> Inl e
           | Inr self' \<Rightarrow> update_from_env self' rest))"

text \<open>
  \<open>Values.update_from_cli\<close> (cli.py, lines 76 to 82). \<open>OptionParser\<close> is Python's library
  and a parameter here: \<open>parse_args options argv\<close> is
  \<open>OptionParser(option_list=options).parse_args(argv)\<close>, the parser's own values and the
  arguments left over, or what the parser raises. The method returns that pair and
  does not touch \<open>self\<close>.
\<close>

definition update_from_cli ::
  "('o list \<Rightarrow> string list option \<Rightarrow> error + pydict \<times> string list) \<Rightarrow>
   pydict \<Rightarrow> 'o list \<Rightarrow> string list option \<Rightarrow> error + pydict \<times> string list" where
  "update_from_cli parse_args self options argv = parse_args options argv"

section \<open>App\<close>

text \<open>
  What \<open>find_main\<close> looks at in the object it is given: whether it is callable, and, when
  it is a function, the names of its parameters as \<open>inspect.getargs\<close> returns them from
  its code: the positional parameters, and the names of the \<open>*\<close> and \<open>**\<close> parameters or
  None. A callable that is no function (a class, a built-in) has no \<open>func_code\<close>.
\<close>

record code =
  co_args :: "string list"
  co_varargs :: "string option"
  co_varkw :: "string option"

datatype pyobj =
    NotCallable
  | Function code
  | Callable

definition callable :: "pyobj \<Rightarrow> bool" where
  "callable f = (f \<noteq> NotCallable)"

text \<open>A name or None where Python wants a truth value: None and the empty string are false.\<close>

definition truthy :: "string option \<Rightarrow> bool" where
  "truthy x = (case x of None \<Rightarrow> False | Some s \<Rightarrow> s \<noteq> [])"

text \<open>\<open>globals().get('main', None)\<close>: the module's own \<open>main(opts, args, app=None)\<close> (cli.py, line 205).\<close>

definition module_main :: pyobj where
  "module_main = Function \<lparr>co_args = [''opts'', ''args'', ''app''], co_varargs = None, co_varkw = None\<rparr>"

text \<open>\<open>App.find_main\<close> (cli.py, lines 168 to 187).\<close>

definition find_main :: "pyobj \<Rightarrow> error + pyobj" where
  "find_main main =
     (let main' = (if \<not> callable main then module_main else main)
      in if \<not> callable main' then Inl MainError
         else (case main' of
                 Function c \<Rightarrow>
                   if length (co_args c) \<noteq> 3 \<or> (truthy (co_varargs c) \<or> truthy (co_varkw c))
                   then Inl MainError
                   else Inr main'
               | _ \<Rightarrow> Inl AttributeError))"

text \<open>
  The fields of an \<open>App\<close>. \<open>config_file\<close>, \<open>argv\<close> and \<open>env\<close> may be None; \<open>env\<close> is a
  dictionary, given by its items. \<open>options\<close> holds the parser's \<open>Option\<close> objects, of a type
  \<open>'o\<close> that only the parser knows.
\<close>

record 'o app =
  name :: string
  main :: pyobj
  config_file :: "config option"
  argv :: "string list option"
  env :: "(string \<times> pyval) list option"
  exit_after_main :: bool
  options :: "'o list"

text \<open>\<open>App.__init__\<close> (cli.py, lines 109 to 118).\<close>

definition init ::
  "string \<Rightarrow> pyobj \<Rightarrow> config option \<Rightarrow> string list option \<Rightarrow>
   (string \<times> pyval) list option \<Rightarrow> bool \<Rightarrow> error + 'o app" where
  "init nm mn cf av ev ex =
     (case find_main mn of
        Inl e \<Rightarrow> Inl e
      | Inr m \<Rightarrow>
          Inr \<lparr>name = nm, main = m, config_file = cf, argv = av, env = ev,
               exit_after_main = ex, options = []\<rparr>)"

text \<open>
  The list comprehension of \<open>App.opts\<close> (cli.py, lines 155 to 157): keep the variables
  whose name, in lower case, starts with the application's name in lower case and an
  underscore, and drop from each name what stands before its first underscore.
\<close>

definition filter_env :: "string \<Rightarrow> (string \<times> pyval) list \<Rightarrow> (string \<times> pyval) list" where
  "filter_env nm items =
     map (\<lambda>(k, v). (py_join ''_'' (tl (py_split ''_'' k)), v))
       (filter (\<lambda>(k, v). startswith (lower k) (lower nm @ ''_'')) items)"

text \<open>
  \<open>App.opts\<close> (cli.py, lines 132 to 162). \<open>dict_items pairs\<close> is \<open>dict(pairs).items()\<close>: the
  dictionary built from the pairs, a later pair replacing an earlier one with the same
  key, listed in the order Python 2 keeps it in, which the language leaves open; so it
  is a parameter. The three \<open>update_from\<close> methods are called through the attributes of
  \<open>opts\<close>. What \<open>update_from_cli\<close> returns is dropped; only an exception of the parser
  comes through.
\<close>

definition opts ::
  "('o list \<Rightarrow> string list option \<Rightarrow> error + pydict \<times> string list) \<Rightarrow>
   ((string \<times> pyval) list \<Rightarrow> (string \<times> pyval) list) \<Rightarrow> 'o app \<Rightarrow> error + pydict" where
  "opts parse_args dict_items self =
     (case (case config_file self of
              None \<Rightarrow> Inr []
            | Some cfg \<Rightarrow>
                (case method_of [] ''update_from_config'' of
                   Inl e \<Rightarrow> Inl e
                 | Inr _ \<Rightarrow> update_from_config [] cfg)) of
        Inl e \<Rightarrow> Inl e
      | Inr opts1 \<Rightarrow>
          (case (case env self of
                   None \<Rightarrow> Inr opts1
                 | Some ev \<Rightarrow>
                     (case method_of opts1 ''update_from_env'' of
                        Inl e \<Rightarrow> Inl e
                      | Inr _ \<Rightarrow> update_from_env opts1 (dict_items (filter_env (name self) ev)))) of
             Inl e \<Rightarrow> Inl e
           | Inr opts2 \<Rightarrow>
               (case method_of opts2 ''update_from_cli'' of
                  Inl e \<Rightarrow> Inl e
                | Inr _ \<Rightarrow>
                    (case update_from_cli parse_args opts2 (options self) (argv self) of
                       Inl e \<Rightarrow> Inl e
                     | Inr _ \<Rightarrow> Inr opts2))))"

section \<open>Names and paths\<close>

text \<open>
  The two names the interpreter answers itself, and the names that every Values instance
  has as attributes before anything is stored in it.
\<close>

definition special :: "string \<Rightarrow> bool" where
  "special n = (n = ''__dict__'' \<or> n = ''__class__'')"

definition reserved :: "string \<Rightarrow> bool" where
  "reserved n = (special n \<or> class_attr n \<noteq> None)"

text \<open>
  \<open>settable parent ns\<close>: walking the names \<open>ns\<close> down from \<open>parent\<close>, every name is either no
  attribute of the node reached (so the node is created) or holds a Values instance, and
  the node at the end still has the method \<open>_update_loose\<close> of its class.
\<close>

fun settable :: "pydict \<Rightarrow> string list \<Rightarrow> bool" where
  "settable parent [] = (method_of parent ''_update_loose'' = Inr ''_update_loose'')"
| "settable parent (n # ns) =
     (case getattr parent n of
        None \<Rightarrow> settable [] ns
      | Some (Val (PVals c)) \<Rightarrow> settable c ns
      | Some _ \<Rightarrow> False)"

text \<open>
  The tree as the spec describes it, a mapping from names to values or sub-trees, seen
  through the options stored: \<open>absent d ns\<close> says that the path \<open>ns\<close> leads through stored
  Values instances to a node that stores nothing under the next name.
\<close>

fun absent :: "pydict \<Rightarrow> string list \<Rightarrow> bool" where
  "absent d [] = False"
| "absent d (n # ns) =
     (case map_of d n of
        None \<Rightarrow> True
      | Some (PVals c) \<Rightarrow> absent c ns
      | Some _ \<Rightarrow> False)"









section \<open>Lemmas on the walk\<close>

lemmas tree_defs =
  set_py_def call_set_def split_name_def update_loose_def method_of_def getattr_def hasattr_def
  class_attr_def class_methods_def leave_def startswith_def get_def join_delim_def
  special_def reserved_def

lemma py_split_nonempty: "py_split sep s \<noteq> []"
  by (induction sep s rule: py_split.induct) (auto split: list.splits)

lemma getattr_update:
  "getattr (AList.update k v d) n =
     (if special n
      then (if n = ''__dict__'' then Some (InstDict (AList.update k v d)) else Some TheClass)
      else if n = k then Some (Val v) else getattr d n)"
  by (simp add: getattr_def special_def update_conv')

lemma getattr_Val_not_special: "getattr d n = Some (Val v) \<Longrightarrow> \<not> special n"
  by (auto simp add: getattr_def special_def split: if_splits)

lemma getattr_None_not_special: "getattr d n = None \<Longrightarrow> \<not> special n"
  by (auto simp add: getattr_def special_def split: if_splits)

lemma getattr_empty: "getattr [] n = None \<longleftrightarrow> \<not> reserved n"
  by (auto simp add: getattr_def reserved_def special_def)

lemma method_of_update_loose:
  "method_of d ''_update_loose'' = Inr f \<longleftrightarrow> map_of d ''_update_loose'' = None \<and> f = ''_update_loose''"
  by (auto simp add: method_of_def getattr_def class_attr_def class_methods_def split: option.splits pyval.splits)

lemma build_succeeds: "settable parent ns \<Longrightarrow> \<exists>p'. build parent ns leaf v = Inr p'"
proof (induction ns arbitrary: parent)
  case Nil
  then show ?case by (simp add: update_loose_def)
next
  case (Cons n ns)
  show ?case
  proof (cases "getattr parent n")
    case None
    with Cons.prems have "settable [] ns" by simp
    from Cons.IH[OF this] obtain c where "build [] ns leaf v = Inr c" by blast
    with None show ?thesis
      using getattr_None_not_special[OF None]
      by (simp add: hasattr_def Let_def getattr_update)
  next
    case (Some a)
    with Cons.prems obtain c where a: "a = Val (PVals c)" and s: "settable c ns"
      by (auto split: attr.splits pyval.splits)
    from Cons.IH[OF s] obtain c' where "build c ns leaf v = Inr c'" by blast
    with Some a show ?thesis by (simp add: hasattr_def)
  qed
qed

lemma build_settable: "build parent ns leaf v = Inr p' \<Longrightarrow> settable parent ns"
proof (induction ns arbitrary: parent p')
  case Nil
  then show ?case by (auto simp add: update_loose_def method_of_update_loose split: sum.splits)
next
  case (Cons n ns)
  show ?case
  proof (cases "getattr parent n")
    case None
    with Cons.prems obtain c where "build [] ns leaf v = Inr c"
      using getattr_None_not_special[OF None]
      by (auto simp add: hasattr_def Let_def getattr_update split: sum.splits)
    from Cons.IH[OF this] None show ?thesis by simp
  next
    case (Some a)
    with Cons.prems obtain c c' where "a = Val (PVals c)" "build c ns leaf v = Inr c'"
      by (auto simp add: hasattr_def split: sum.splits attr.splits pyval.splits)
    with Cons.IH Some show ?thesis by simp
  qed
qed

lemma build_read:
  "build parent ns leaf v = Inr p' \<Longrightarrow> \<not> special leaf \<Longrightarrow> getpath p' (ns @ [leaf]) = Inr (Val v)"
proof (induction ns arbitrary: parent p')
  case Nil
  then show ?case by (auto simp add: update_loose_def getattr_update split: sum.splits)
next
  case (Cons n ns)
  show ?case
  proof (cases "getattr parent n")
    case None
    with Cons.prems obtain c where c: "build [] ns leaf v = Inr c" and p': "p' = AList.update n (PVals c) (AList.update n (PVals []) parent)"
      using getattr_None_not_special[OF None]
      by (auto simp add: hasattr_def Let_def getattr_update split: sum.splits)
    from Cons.IH[OF c Cons.prems(2)] p' getattr_None_not_special[OF None]
    show ?thesis by (simp add: getattr_update)
  next
    case (Some a)
    with Cons.prems obtain c c' where a: "a = Val (PVals c)" and c: "build c ns leaf v = Inr c'"
      and p': "p' = AList.update n (PVals c') parent"
      by (auto simp add: hasattr_def split: sum.splits attr.splits pyval.splits)
    from Some a have "\<not> special n" by (auto dest: getattr_Val_not_special)
    with Cons.IH[OF c Cons.prems(2)] p' show ?thesis by (simp add: getattr_update)
  qed
qed


lemma getattr_plain: "\<not> reserved n \<Longrightarrow> getattr d n = map_option Val (map_of d n)"
  by (auto simp add: getattr_def reserved_def special_def split: option.splits)

lemma getpath_absent:
  "absent d ns \<Longrightarrow> \<forall>n\<in>set ns. \<not> reserved n \<Longrightarrow> getpath d ns = Inl AttributeError"
proof (induction ns arbitrary: d)
  case Nil
  then show ?case by simp
next
  case (Cons n ns)
  from Cons.prems(2) have g: "getattr d n = map_option Val (map_of d n)"
    by (simp add: getattr_plain)
  show ?case
  proof (cases "map_of d n")
    case None
    with g show ?thesis by simp
  next
    case (Some x)
    with Cons.prems(1) obtain c where x: "x = PVals c" and c: "absent c ns"
      by (auto split: pyval.splits)
    from c have "ns \<noteq> []" by auto
    with Some x g Cons.IH[OF c] Cons.prems(2) show ?thesis by simp
  qed
qed

lemma frame_hyp_not_special:
  assumes "(\<forall>x\<in>set (q # qs). \<not> reserved x) \<or> (\<exists>u. getpath parent (q # qs) = Inr (Val u))"
  shows "\<not> special q"
proof
  assume s: "special q"
  then have "reserved q" by (simp add: reserved_def)
  with assms obtain u where u: "getpath parent (q # qs) = Inr (Val u)" by auto
  from s have "(\<exists>d. getattr parent q = Some (InstDict d)) \<or> getattr parent q = Some TheClass"
    by (auto simp add: getattr_def special_def)
  with u show False by (auto split: if_splits)
qed

lemma build_changes_one:
  assumes "build parent (n # ns) leaf v = Inr p'"
  shows "\<exists>c. p' = AList.update n c parent \<or> p' = AList.update n c (AList.update n (PVals []) parent)"
  using assms
  by (auto simp add: Let_def split: sum.splits option.splits attr.splits pyval.splits if_splits)

lemma build_frame:
  assumes "build parent ns leaf v = Inr p'"
    and "\<not> prefix (ns @ [leaf]) qs" and "\<not> prefix qs (ns @ [leaf])"
    and "(\<forall>q\<in>set qs. \<not> reserved q) \<or> (\<exists>u. getpath parent qs = Inr (Val u))"
  shows "getpath p' qs = getpath parent qs"
  using assms
proof (induction ns arbitrary: parent p' qs)
  case Nil
  then obtain q qs' where qs: "qs = q # qs'" and ne: "q \<noteq> leaf"
    by (cases qs) auto
  from Nil.prems(4) have nsp: "\<not> special q" unfolding qs by (rule frame_hyp_not_special)
  from Nil.prems(1) have "p' = AList.update leaf v parent"
    by (auto simp add: update_loose_def split: sum.splits)
  with ne nsp have "getattr p' q = getattr parent q"
    by (simp add: getattr_update)
  with qs show ?case by simp
next
  case (Cons n ns)
  from Cons.prems(3) obtain q qs' where qs: "qs = q # qs'" by (cases qs) auto
  from Cons.prems(4) have nsp: "\<not> special q" unfolding qs by (rule frame_hyp_not_special)
  show ?case
  proof (cases "q = n")
    case False
    with build_changes_one[OF Cons.prems(1)] nsp have "getattr p' q = getattr parent q"
      by (auto simp add: getattr_update)
    with qs show ?thesis by simp
  next
    case True
    from Cons.prems(2,3) qs True
    have d1: "\<not> prefix (ns @ [leaf]) qs'" and d2: "\<not> prefix qs' (ns @ [leaf])" by auto
    from d2 have ne: "qs' \<noteq> []" by auto
    show ?thesis
    proof (cases "getattr parent n")
      case None
      with Cons.prems(1) obtain c where c: "build [] ns leaf v = Inr c"
        and p': "p' = AList.update n (PVals c) (AList.update n (PVals []) parent)"
        using getattr_None_not_special[OF None]
        by (auto simp add: hasattr_def Let_def getattr_update split: sum.splits)
      from None qs True have old: "getpath parent qs = Inl AttributeError" by simp
      with Cons.prems(4) have res: "\<forall>q\<in>set qs'. \<not> reserved q" using qs by auto
      obtain q' qs'' where qs': "qs' = q' # qs''" using ne by (cases qs') auto
      with res have "getattr [] q' = None" by (simp add: getattr_empty)
      with qs' have "getpath [] qs' = Inl AttributeError" by simp
      moreover have "getpath c qs' = getpath [] qs'"
        using Cons.IH[OF c d1 d2] res by blast
      moreover have "getpath p' qs = getpath c qs'"
        using p' qs True ne getattr_None_not_special[OF None] by (simp add: getattr_update)
      ultimately show ?thesis using old by simp
    next
      case (Some a)
      with Cons.prems(1) obtain c c' where a: "a = Val (PVals c)" and c: "build c ns leaf v = Inr c'"
        and p': "p' = AList.update n (PVals c') parent"
        by (auto simp add: hasattr_def split: sum.splits attr.splits pyval.splits)
      have old: "getpath parent qs = getpath c qs'" using Some a qs True ne by simp
      have new: "getpath p' qs = getpath c' qs'" using p' qs True ne nsp by (simp add: getattr_update)
      have "(\<forall>q\<in>set qs'. \<not> reserved q) \<or> (\<exists>u. getpath c qs' = Inr (Val u))"
        using Cons.prems(4) qs old by auto
      from Cons.IH[OF c d1 d2 this] old new show ?thesis by simp
    qed
  qed
qed






section \<open>Lemmas on sequences of writes\<close>

















section \<open>Lemmas on the configuration file\<close>









section \<open>Lemmas on writing a path twice\<close>

lemma call_set_get:
  assumes "map_of t ''set'' = None"
    and "getattr t ''delim'' = Some (Val (PStr ''.''))"
    and "settable t (butlast (py_split ''.'' P))"
    and "\<not> special (last (py_split ''.'' P))"
  shows "\<exists>t'. call_set t P V = Inr t' \<and> get t' P = Inr (Val V)"
proof -
  let ?segs = "py_split ''.'' P"
  have segs: "butlast ?segs @ [last ?segs] = ?segs"
    by (simp add: py_split_nonempty)
  from build_succeeds[OF assms(3)] obtain t'
    where b: "build t (butlast ?segs) (last ?segs) V = Inr t'" by blast
  have "call_set t P V = Inr t'"
    using assms(1,2) b
    by (simp add: call_set_def method_of_def getattr_def class_attr_def class_methods_def
        set_py_def split_name_def py_split_nonempty)
  moreover have "get t' P = Inr (Val V)"
    using build_read[OF b assms(4)] segs by (simp add: get_def)
  ultimately show ?thesis by blast
qed




lemma find_main_function:
  assumes "co_varargs c \<noteq> Some []" and "co_varkw c \<noteq> Some []"
    and "length (co_args c) \<noteq> 3 \<or> co_varargs c \<noteq> None \<or> co_varkw c \<noteq> None"
  shows "(init nm (Function c) cf av ev ex :: error + 'o app) = Inl MainError"
  using assms
  by (auto simp add: init_def find_main_def callable_def truthy_def split: option.splits)

section \<open>Lemmas on the environment\<close>












section \<open>Writing and reading one path\<close>

text \<open>
  C6, corrected. The specification says: for every path \<open>P\<close> and value \<open>V\<close>, \<open>set(P, V)\<close> followed by
  \<open>get(P)\<close> returns \<open>V\<close>. As the code has it: when the root stores no option named
  \<open>set\<close> and its \<open>delim\<close> is \<open>'.'\<close>, every intermediate segment of \<open>P\<close> is either no
  attribute of the node it is looked up in or holds a Values instance, the node that
  takes the last segment has its method \<open>_update_loose\<close>, and the last segment is neither
  \<open>__dict__\<close> nor \<open>__class__\<close>, then \<open>set(P, V)\<close> returns and \<open>get(P)\<close> is \<open>V\<close> afterwards.
\<close>

theorem set_then_get:
  assumes "map_of t ''set'' = None"
    and "getattr t ''delim'' = Some (Val (PStr ''.''))"
    and "settable t (butlast (py_split ''.'' P))"
    and "\<not> special (last (py_split ''.'' P))"
  shows "\<exists>t'. call_set t P V = Inr t' \<and> get t' P = Inr (Val V)"
  using assms by (rule call_set_get)

theorem set_then_get_witness:
  "map_of [(''default'', PVals [(''foo'', PStr ''bar'')])] ''set'' = None
   \<and> getattr [(''default'', PVals [(''foo'', PStr ''bar'')])] ''delim'' = Some (Val (PStr ''.''))
   \<and> settable [(''default'', PVals [(''foo'', PStr ''bar'')])] (butlast (py_split ''.'' ''default.spam.eggs''))
   \<and> \<not> special (last (py_split ''.'' ''default.spam.eggs''))
   \<and> (\<exists>t'. call_set [(''default'', PVals [(''foo'', PStr ''bar'')])] ''default.spam.eggs'' (PInt 3) = Inr t'
          \<and> get t' ''default.spam.eggs'' = Inr (Val (PInt 3)))"
proof -
  have 1: "map_of [(''default'', PVals [(''foo'', PStr ''bar'')])] ''set'' = None" by simp
  have 2: "getattr [(''default'', PVals [(''foo'', PStr ''bar'')])] ''delim'' = Some (Val (PStr ''.''))"
    by (simp add: tree_defs)
  have 3: "settable [(''default'', PVals [(''foo'', PStr ''bar'')])] (butlast (py_split ''.'' ''default.spam.eggs''))"
    by (simp add: tree_defs)
  have 4: "\<not> special (last (py_split ''.'' ''default.spam.eggs''))"
    by (simp add: tree_defs)
  from set_then_get[OF 1 2 3 4, of "PInt 3"] 1 2 3 4 show ?thesis by blast
qed

text \<open>
  Where this fails: an intermediate segment that names an attribute of the class
  (\<open>delim\<close> is the string \<open>'.'\<close>, which has no \<open>_update_loose\<close>); an intermediate segment
  that holds a string; the last segment \<open>__dict__\<close>, which is stored but reads as the
  instance's dictionary; an option \<open>set\<close> at the root, which hides the method; an option
  \<open>delim\<close> at the root, which makes \<open>set\<close> split the path elsewhere than \<open>get\<close> does.
\<close>

theorem set_then_get_counterexample:
  "call_set [] ''delim.x'' (PStr ''v'') = Inl AttributeError
   \<and> call_set [(''a'', PStr ''s'')] ''a.b'' (PStr ''v'') = Inl AttributeError
   \<and> call_set [] ''__dict__'' (PStr ''v'') = Inr [(''__dict__'', PStr ''v'')]
   \<and> get [(''__dict__'', PStr ''v'')] ''__dict__'' = Inr (InstDict [(''__dict__'', PStr ''v'')])
   \<and> call_set [(''set'', PStr ''s'')] ''a'' (PStr ''v'') = Inl TypeError
   \<and> call_set [(''delim'', PStr ''a'')] ''a.b'' (PStr ''v'') = Inr [(''delim'', PStr ''a''), ('''', PVals [(''.b'', PStr ''v'')])]
   \<and> get [(''delim'', PStr ''a''), ('''', PVals [(''.b'', PStr ''v'')])] ''a.b'' = Inl AttributeError"
  by (simp add: tree_defs)

text \<open>
  C9, corrected. The specification says: reading a path that is not present in the tree fails with a
  lookup error, and the failed read puts nothing into the tree. As the code has it (a
  read is attribute access, and an instance has the attributes of its class too): when
  no segment of \<open>P\<close> is a reserved name and \<open>P\<close> leads through stored Values instances to
  a node that stores nothing under the next segment, reading \<open>P\<close> raises AttributeError.
  A read yields a value or an error and no tree: nothing is stored by it.
\<close>

theorem get_absent:
  assumes "absent t (py_split ''.'' P)" and "\<forall>n\<in>set (py_split ''.'' P). \<not> reserved n"
  shows "get t P = Inl AttributeError"
  using assms by (simp add: get_def getpath_absent)

theorem get_absent_witness:
  "absent [(''default'', PVals [(''foo'', PStr ''bar'')])] (py_split ''.'' ''default.spam.eggs'')
   \<and> get [(''default'', PVals [(''foo'', PStr ''bar'')])] ''default.spam.eggs'' = Inl AttributeError"
proof -
  have 1: "absent [(''default'', PVals [(''foo'', PStr ''bar'')])] (py_split ''.'' ''default.spam.eggs'')"
    by (simp add: tree_defs)
  have 2: "\<forall>n\<in>set (py_split ''.'' ''default.spam.eggs''). \<not> reserved n"
    by (simp add: tree_defs)
  from get_absent[OF 1 2] 1 show ?thesis by simp
qed

text \<open>
  Where this fails: nothing is stored in the empty tree, and yet \<open>delim\<close> and \<open>set\<close>
  can be read from it.
\<close>

theorem get_absent_counterexample:
  "get [] ''delim'' = Inr (Val (PStr ''.'')) \<and> get [] ''set'' = Inr (Method ''set'')"
  by (simp add: tree_defs)

text \<open>
  C10, corrected. The specification says: \<open>set(P, V)\<close> leaves \<open>get(Q)\<close> unchanged for every
  path \<open>Q\<close> that neither extends \<open>P\<close> nor is a prefix of it. As the code has it: when the
  root stores no option named \<open>set\<close> and its \<open>delim\<close> is \<open>'.'\<close>, every intermediate segment
  of \<open>P\<close> is either no attribute of the node it is looked up in or holds a Values
  instance and the node that takes the last segment has its method \<open>_update_loose\<close> (so
  that the write stays inside the tree), and either \<open>Q\<close> has no reserved segment and is
  absent from the tree, or \<open>get(Q)\<close> returned a value (a stored one or one of the class)
  before, then \<open>set(P, V)\<close> returns and \<open>get(Q)\<close> is afterwards what it was before.
\<close>

theorem set_frame:
  assumes "map_of t ''set'' = None"
    and "getattr t ''delim'' = Some (Val (PStr ''.''))"
    and "settable t (butlast (py_split ''.'' P))"
    and "\<not> prefix (py_split ''.'' P) (py_split ''.'' Q)"
    and "\<not> prefix (py_split ''.'' Q) (py_split ''.'' P)"
    and "(absent t (py_split ''.'' Q) \<and> (\<forall>q\<in>set (py_split ''.'' Q). \<not> reserved q))
         \<or> (\<exists>u. get t Q = Inr (Val u))"
  shows "\<exists>t'. call_set t P V = Inr t' \<and> get t' Q = get t Q"
proof -
  let ?segs = "py_split ''.'' P"
  have segs: "butlast ?segs @ [last ?segs] = ?segs"
    by (simp add: py_split_nonempty)
  from build_succeeds[OF assms(3)] obtain t'
    where b: "build t (butlast ?segs) (last ?segs) V = Inr t'" by blast
  have c: "call_set t P V = Inr t'"
    using assms(1,2) b
    by (simp add: call_set_def method_of_def getattr_def class_attr_def class_methods_def
        set_py_def split_name_def py_split_nonempty)
  from assms(6) have "(\<forall>q\<in>set (py_split ''.'' Q). \<not> reserved q)
      \<or> (\<exists>u. getpath t (py_split ''.'' Q) = Inr (Val u))"
    by (auto simp add: get_def)
  from build_frame[OF b _ _ this] assms(4,5) segs
  have "get t' Q = get t Q" by (simp add: get_def)
  with c show ?thesis by blast
qed

theorem set_frame_witness:
  "settable [(''default'', PVals [(''foo'', PStr ''bar'')])] (butlast (py_split ''.'' ''default.spam.eggs''))
   \<and> get [(''default'', PVals [(''foo'', PStr ''bar'')])] ''default.foo'' = Inr (Val (PStr ''bar''))
   \<and> (\<exists>t'. call_set [(''default'', PVals [(''foo'', PStr ''bar'')])] ''default.spam.eggs'' (PInt 3) = Inr t'
          \<and> get t' ''default.foo'' = get [(''default'', PVals [(''foo'', PStr ''bar'')])] ''default.foo'')
   \<and> absent [(''default'', PVals [(''foo'', PStr ''bar'')])] (py_split ''.'' ''frobnitz.spam'')
   \<and> (\<exists>t'. call_set [(''default'', PVals [(''foo'', PStr ''bar'')])] ''default.spam.eggs'' (PInt 3) = Inr t'
          \<and> get t' ''frobnitz.spam'' = get [(''default'', PVals [(''foo'', PStr ''bar'')])] ''frobnitz.spam'')"
proof -
  let ?t = "[(''default'', PVals [(''foo'', PStr ''bar'')])]"
  have 1: "map_of ?t ''set'' = None" by simp
  have 2: "getattr ?t ''delim'' = Some (Val (PStr ''.''))" by (simp add: tree_defs)
  have 3: "settable ?t (butlast (py_split ''.'' ''default.spam.eggs''))" by (simp add: tree_defs)
  have 4: "\<not> prefix (py_split ''.'' ''default.spam.eggs'') (py_split ''.'' ''default.foo'')"
    by (simp add: tree_defs)
  have 5: "\<not> prefix (py_split ''.'' ''default.foo'') (py_split ''.'' ''default.spam.eggs'')"
    by (simp add: tree_defs)
  have 6: "get ?t ''default.foo'' = Inr (Val (PStr ''bar''))" by (simp add: tree_defs)
  then have 7: "(absent ?t (py_split ''.'' ''default.foo'')
        \<and> (\<forall>q\<in>set (py_split ''.'' ''default.foo''). \<not> reserved q))
      \<or> (\<exists>u. get ?t ''default.foo'' = Inr (Val u))" by blast
  have 8: "\<not> prefix (py_split ''.'' ''default.spam.eggs'') (py_split ''.'' ''frobnitz.spam'')"
    by (simp add: tree_defs)
  have 9: "\<not> prefix (py_split ''.'' ''frobnitz.spam'') (py_split ''.'' ''default.spam.eggs'')"
    by (simp add: tree_defs)
  have 10: "absent ?t (py_split ''.'' ''frobnitz.spam'')" by (simp add: tree_defs)
  have 11: "\<forall>q\<in>set (py_split ''.'' ''frobnitz.spam''). \<not> reserved q" by (simp add: tree_defs)
  from 10 11 have 12: "(absent ?t (py_split ''.'' ''frobnitz.spam'')
        \<and> (\<forall>q\<in>set (py_split ''.'' ''frobnitz.spam''). \<not> reserved q))
      \<or> (\<exists>u. get ?t ''frobnitz.spam'' = Inr (Val u))" by blast
  from set_frame[OF 1 2 3 4 5 7, of "PInt 3"] set_frame[OF 1 2 3 8 9 12, of "PInt 3"] 3 6 10
  show ?thesis by blast
qed

text \<open>
  Where this fails: \<open>set('x.z', V)\<close> on the empty tree creates the node \<open>x\<close>, and
  \<open>x.delim\<close>, which could not be read before, reads as the \<open>delim\<close> of the class; with
  an option \<open>delim = 'x'\<close> at the root, \<open>set('cxa', V)\<close> writes to the path \<open>c.a\<close>; and the
  instance's \<open>__dict__\<close>, read before and after \<open>set('x', V)\<close>, has gained the entry.
\<close>

theorem set_frame_counterexample:
  "call_set [] ''x.z'' (PStr ''v'') = Inr [(''x'', PVals [(''z'', PStr ''v'')])]
   \<and> get [] ''x.delim'' = Inl AttributeError
   \<and> get [(''x'', PVals [(''z'', PStr ''v'')])] ''x.delim'' = Inr (Val (PStr ''.''))
   \<and> call_set [(''delim'', PStr ''x''), (''c'', PVals [(''a'', PStr ''old'')])] ''cxa'' (PStr ''v'')
     = Inr [(''delim'', PStr ''x''), (''c'', PVals [(''a'', PStr ''v'')])]
   \<and> get [(''delim'', PStr ''x''), (''c'', PVals [(''a'', PStr ''old'')])] ''c.a'' = Inr (Val (PStr ''old''))
   \<and> get [(''delim'', PStr ''x''), (''c'', PVals [(''a'', PStr ''v'')])] ''c.a'' = Inr (Val (PStr ''v''))
   \<and> call_set [] ''x'' (PStr ''v'') = Inr [(''x'', PStr ''v'')]
   \<and> get [] ''__dict__'' = Inr (InstDict [])
   \<and> get [(''x'', PStr ''v'')] ''__dict__'' = Inr (InstDict [(''x'', PStr ''v'')])"
  by (simp add: tree_defs)

section \<open>Writing a path twice, and the configuration file\<close>







section \<open>The entry point and the resolution pass\<close>

text \<open>
  C8, a defect of the code. The specification says: constructing an App with an
  entry-point callable whose parameters are not exactly three positional ones fails
  with MainError, and the docstring of \<open>find_main\<close> says so too ("If ... the chosen
  callable doesn't support the App interface ..., raise MainError"). For a function the
  code does that (lemma \<open>find_main_function\<close>). For a callable that is no function (a
  class, a built-in, an instance with \<open>__call__\<close>), whatever its parameters,
  \<open>getargs(main.func_code)\<close> raises AttributeError before the parameters are counted.
\<close>

theorem find_main_without_code:
  "(init nm Callable cf av ev ex :: error + 'o app) = Inl AttributeError"
  by (simp add: init_def find_main_def callable_def)

text \<open>
  C2, a defect of the code. The specification says: the resolution returns the pair of the tree and
  the positional arguments left over, as the docstring of \<open>App.opts\<close> says ("Returns a
  tuple (opts, args)"). The code returns the tree alone: what the parser leaves over
  does not reach the result, whatever it is.
\<close>

theorem opts_drops_arguments:
  "opts (\<lambda>os av. Inr (vals, args)) dict_items self = opts (\<lambda>os av. Inr (vals', args')) dict_items self"
  by (simp add: opts_def update_from_cli_def split: option.splits sum.splits)

text \<open>
  C1, a defect of the code. The specification says: a flag given on the command line overrides the
  environment and the configuration file, as the docstring of \<open>App.opts\<close> says
  ("configuration -> environment -> CLI", "the rightmost source winning"). The code
  parses the command line and drops the result: with \<open>default.foo = bar\<close> in the file,
  \<open>OURAPP_DEFAULT_FOO=notbar\<close> in the environment and a parser that reports \<open>baz\<close> for
  \<open>default.foo\<close>, the tree holds \<open>notbar\<close>.
\<close>

theorem opts_ignores_flags:
  "opts (\<lambda>os av. Inr ([(''default.foo'', PStr ''baz'')], [])) (\<lambda>items. items)
     \<lparr>name = ''ourapp'', main = module_main,
      config_file = Some [(''default'', [(''foo'', ''bar'')])],
      argv = Some [''--default.foo'', ''baz''],
      env = Some [(''OURAPP_DEFAULT_FOO'', PStr ''notbar'')],
      exit_after_main = True, options = [''default.foo'']\<rparr>
   = Inr [(''default'', PVals [(''foo'', PStr ''notbar'')])]
   \<and> get [(''default'', PVals [(''foo'', PStr ''notbar'')])] ''default.foo'' = Inr (Val (PStr ''notbar''))"
  by (simp add: opts_def update_from_cli_def filter_env_def lower_def lower_char_def tree_defs)

text \<open>
  C3, a defect of the code. The specification says: of a variable with the application's prefix, the
  whole prefix (the name and the underscore) is stripped. The code keeps the variables
  that start with the name and an underscore, and strips what stands before the first
  underscore of each: with the name \<open>our_app\<close>, the variable \<open>OUR_APP_FOO\<close> becomes
  \<open>APP_FOO\<close> and is stored at \<open>app.foo\<close>, not at \<open>foo\<close>.
\<close>

theorem env_prefix_with_underscore:
  "filter_env ''our_app'' [(''OUR_APP_FOO'', PStr ''x'')] = [(''APP_FOO'', PStr ''x'')]
   \<and> update_from_env [] (filter_env ''our_app'' [(''OUR_APP_FOO'', PStr ''x'')])
       = Inr [(''app'', PVals [(''foo'', PStr ''x'')])]"
  by (simp add: filter_env_def lower_def lower_char_def tree_defs)




end
